theory Spec2Isabelle
  imports Main "HOL-Library.AList"
begin

section \<open>The notebook doc/Working\_with\_Bokeh.ipynb\<close>

text \<open>
  The repository's one source file is a Jupyter notebook: a list of cells, each either
  markdown prose or Python code, run top to bottom by a Python 2 kernel. Its code is
  modelled the way it is written: the Python syntax of the code cells as a datatype that
  follows Python's own abstract syntax (\<open>Call(func, args, keywords)\<close>,
  \<open>Dict(keys, values)\<close>, \<open>Assign\<close>, \<open>Import\<close>, ...), the notebook as a constant of
  that type, and the kernel as an interpreter over an explicit namespace. The syntax is
  kept as data because the properties of interest speak about it: which names a cell
  reads and binds, which constructs it contains, which calls it makes.
\<close>

subsection \<open>Python syntax\<close>

datatype expr =
    Str string
  | Num int
  | Name string
  | Attribute expr string
  | Subscript expr expr
  | Call expr "expr list" "keyword list"
  | Dict "expr list" "expr list"
  | DictComp expr expr "string list" expr
  | ListE "expr list"
  | TupleE "expr list"
  | Mult expr expr
  | IfExp expr expr expr
and keyword = Keyword string expr

text \<open>
  \<open>DictComp k v targets iter\<close> is \<open>{k: v for targets in iter}\<close>; \<open>Mult a b\<close> is
  \<open>a * b\<close>; \<open>IfExp c a b\<close> is \<open>a if c else b\<close>.
\<close>

datatype stmt =
    Import string "string option"
  | ImportFrom string string "string option"
  | Assign expr expr
  | ExprStmt expr
  | If expr "stmt list" "stmt list"
  | For expr expr "stmt list"
  | While expr "stmt list"

text \<open>
  \<open>Import m a\<close> is \<open>import m [as a]\<close>; \<open>ImportFrom m n a\<close> is
  \<open>from m import n [as a]\<close>; \<open>Assign target value\<close> is \<open>target = value\<close>.
\<close>

datatype cell =
    Markdown
  | Code "string list" "stmt list"

text \<open>
  A code cell holds its leading cell-magic lines (\<open>%%opts ...\<close>, plot options for the
  display of the cell's result) and its Python statements. The prose of a markdown cell
  is not executed and is left out; the cell itself is kept, so that cell positions are
  those of the file.
\<close>

subsection \<open>The cells\<close>

definition PlateCarree :: expr where
  "PlateCarree = Call (Attribute (Name ''ccrs'') ''PlateCarree'') [] []"

definition cell_imports :: cell where
  "cell_imports = Code []
    [Import ''xarray'' (Some ''xr''),
     Import ''numpy'' (Some ''np''),
     Import ''pandas'' (Some ''pd''),
     Import ''holoviews'' (Some ''hv''),
     Import ''geoviews'' (Some ''gv''),
     Import ''geoviews.feature'' (Some ''gf''),
     Import ''cartopy'' None,
     ImportFrom ''cartopy'' ''crs'' (Some ''ccrs''),
     ImportFrom ''bokeh.tile_providers'' ''STAMEN_TONER'' None,
     ImportFrom ''bokeh.models'' ''WMTSTileSource'' None,
     ExprStmt (Call (Attribute (Name ''hv'') ''notebook_extension'') [Str ''bokeh''] [])]"

definition cell_tiles :: cell where
  "cell_tiles = Code []
    [Assign (Name ''tiles'')
       (Dict
         [Str ''OpenMap'', Str ''ESRI'', Str ''Wikipedia'', Str ''Stamen Toner'']
         [Call (Name ''WMTSTileSource'') []
            [Keyword ''url'' (Str ''http://c.tile.openstreetmap.org/{Z}/{X}/{Y}.png'')],
          Call (Name ''WMTSTileSource'') []
            [Keyword ''url'' (Str ''https://server.arcgisonline.com/ArcGIS/rest/services/World_Imagery/MapServer/tile/{Z}/{Y}/{X}.jpg'')],
          Call (Name ''WMTSTileSource'') []
            [Keyword ''url'' (Str ''https://maps.wikimedia.org/osm-intl/{Z}/{X}/{Y}@2x.png'')],
          Name ''STAMEN_TONER''])]"

definition cell_layout :: cell where
  "cell_layout = Code [''%%opts WMTS [width=450 height=250 xaxis=None yaxis=None]'']
    [ExprStmt
       (Call
         (Attribute
           (Call (Attribute (Name ''hv'') ''NdLayout'')
              [DictComp (Name ''name'')
                 (Call (Attribute (Name ''gv'') ''WMTS'') [Name ''wmts'']
                    [Keyword ''extents'' (TupleE [Num 0, Num (- 90), Num 360, Num 90]),
                     Keyword ''crs'' PlateCarree])
                 [''name'', ''wmts'']
                 (Call (Attribute (Name ''tiles'') ''items'') [] [])]
              [Keyword ''kdims'' (ListE [Str ''Source''])])
           ''cols'')
         [Num 2] [])]"

definition cell_cities :: cell where
  "cell_cities = Code []
    [Assign (Name ''cities'')
       (Call (Attribute (Name ''pd'') ''read_csv'') [Str ''./assets/cities.csv'']
          [Keyword ''encoding'' (Str ''ISO-8859-1'')]),
     Assign (Name ''population'')
       (Call (Attribute (Name ''gv'') ''Dataset'') [Name ''cities'']
          [Keyword ''kdims'' (ListE [Str ''City'', Str ''Country'', Str ''Year''])]),
     ExprStmt (Call (Attribute (Name ''cities'') ''head'') [] [])]"

definition cell_points :: cell where
  "cell_points = Code
    [''%%opts Overlay [width=600 height=300 xaxis=None yaxis=None] '',
     ''%%opts Points (size=0.005 cmap='viridis') [tools=['hover'] color_index=2]'']
    [ExprStmt
       (Mult
         (Call (Attribute (Name ''gv'') ''WMTS'')
            [Subscript (Name ''tiles'') (Str ''Wikipedia'')] [])
         (Call (Attribute (Name ''population'') ''to'')
            [Attribute (Name ''gv'') ''Points'']
            [Keyword ''kdims'' (ListE [Str ''Longitude'', Str ''Latitude'']),
             Keyword ''vdims'' (ListE [Str ''Population'', Str ''City'', Str ''Country'']),
             Keyword ''crs'' PlateCarree]))]"

definition cell_shapes :: cell where
  "cell_shapes = Code []
    [Assign (Name ''shapefile'') (Str ''./assets/boundaries/boundaries.shp''),
     Assign (Name ''shapes'')
       (Call (Attribute (Attribute (Attribute (Name ''cartopy'') ''io'') ''shapereader'') ''Reader'')
          [Name ''shapefile''] []),
     Assign (Name ''referendum'')
       (Call (Attribute (Name ''pd'') ''read_csv'') [Str ''./assets/referendum.csv''] []),
     Assign (Name ''referendum'')
       (Call (Attribute (Name ''hv'') ''Dataset'') [Name ''referendum''] [])]"

definition cell_choropleth :: cell where
  "cell_choropleth = Code
    [''%%opts Shape (cmap='viridis') [xaxis=None yaxis=None tools=['hover'] width=400 height=500]'']
    [ExprStmt
       (Call (Attribute (Attribute (Name ''gv'') ''Shape'') ''from_records'')
          [Call (Attribute (Name ''shapes'') ''records'') [] [], Name ''referendum'']
          [Keyword ''on'' (Str ''code''),
           Keyword ''value'' (Str ''leaveVoteshare''),
           Keyword ''index'' (Str ''name''),
           Keyword ''crs'' PlateCarree,
           Keyword ''group'' (Str ''EU Referendum'')])]"

definition cell_image :: cell where
  "cell_image = Code
    [''%%opts Overlay [width=600 height=400] Image (cmap='viridis') Feature (line_color='black')'']
    [Assign (Name ''dataset'')
       (Call (Attribute (Name ''xr'') ''open_dataset'') [Str ''./sample-data/pre-industrial.nc''] []),
     Assign (Name ''air_temperature'')
       (Call (Attribute (Name ''gv'') ''Dataset'') [Name ''dataset'']
          [Keyword ''kdims'' (ListE [Str ''longitude'', Str ''latitude'']),
           Keyword ''group'' (Str ''Pre-industrial air temperature''),
           Keyword ''vdims'' (ListE [Str ''air_temperature'']),
           Keyword ''crs'' PlateCarree]),
     ExprStmt
       (Mult
         (Call (Attribute (Attribute (Name ''air_temperature'') ''to'') ''image'') [] [])
         (Attribute (Name ''gf'') ''coastline''))]"

text \<open>
  The 21 cells of the file, in file order. Cells are counted from 0, as \<open>notebook ! i\<close>
  counts them: the tiles cell is cell 4, the layout cell cell 6, the cities cell cell 9,
  the points cell cell 11.
\<close>

definition notebook :: "cell list" where
  "notebook =
    [cell_imports, Markdown, Markdown, Markdown,
     cell_tiles, Markdown,
     cell_layout, Markdown, Markdown,
     cell_cities, Markdown,
     cell_points, Markdown, Markdown,
     cell_shapes, Markdown,
     cell_choropleth, Markdown, Markdown,
     cell_image, Markdown]"

subsection \<open>Values, errors and effects\<close>

text \<open>
  The notebook computes nothing itself: every call goes into pandas, cartopy, xarray,
  bokeh, holoviews or geoviews, whose code is not part of the notebook. A library object
  is therefore a symbolic value: \<open>VLib q\<close> is the module, class or function with the
  dotted path \<open>q\<close>, \<open>VObj f args kws\<close> is the object returned by calling \<open>f\<close> with
  these arguments, \<open>VAttr obj a\<close> is the attribute (or bound method) \<open>obj.a\<close>. Strings,
  integers, lists, tuples and dictionaries are Python's own; a dictionary is an association
  list with distinct keys.
\<close>

datatype pyval =
    VStr string
  | VInt int
  | VList "pyval list"
  | VTuple "pyval list"
  | VDict "(pyval \<times> pyval) list"
  | VLib string
  | VObj pyval "pyval list" "(string \<times> pyval) list"
  | VAttr pyval string

datatype error =
    NameError string
  | KeyError pyval
  | AttributeError string
  | TypeError
  | ValueError
  | Unsupported

text \<open>
  The one effect followed is the reading of a file: \<open>FileRead f path\<close> records that the
  library entry point \<open>f\<close> was called on \<open>path\<close>. The entry points of the notebook that
  take the path of a file and load it are \<open>pd.read_csv\<close>,
  \<open>cartopy.io.shapereader.Reader\<close> and \<open>xr.open_dataset\<close>.
\<close>

datatype effect = FileRead string string

type_synonym namespace = "(string \<times> pyval) list"
type_synonym library = "string \<Rightarrow> pyval"

definition loaders :: "string list" where
  "loaders = [''pandas.read_csv'', ''cartopy.io.shapereader.Reader'', ''xarray.open_dataset'']"

text \<open>
  What an import yields is given by a \<open>library\<close>, from dotted paths to values. An attribute
  of a module is looked up there too; a dictionary has the method \<open>items\<close>; any other
  attribute of a library object stays symbolic.
\<close>

fun getattr :: "library \<Rightarrow> pyval \<Rightarrow> string \<Rightarrow> error + pyval" where
  "getattr lib (VLib q) a = Inr (lib (q @ ''.'' @ a))"
| "getattr lib (VObj f args kws) a = Inr (VAttr (VObj f args kws) a)"
| "getattr lib (VAttr obj b) a = Inr (VAttr (VAttr obj b) a)"
| "getattr lib (VDict kvs) a =
     (if a = ''items'' then Inr (VAttr (VDict kvs) a) else Inl (AttributeError a))"
| "getattr lib _ a = Inl (AttributeError a)"

fun call :: "pyval \<Rightarrow> pyval list \<Rightarrow> (string \<times> pyval) list \<Rightarrow> error + pyval \<times> effect list" where
  "call (VLib q) args kws =
     (if q \<in> set loaders then
        (case args of
           VStr path # _ \<Rightarrow> Inr (VObj (VLib q) args kws, [FileRead q path])
         | _ \<Rightarrow> Inl TypeError)
      else Inr (VObj (VLib q) args kws, []))"
| "call (VAttr (VDict kvs) m) args kws =
     (if m = ''items'' \<and> args = [] \<and> kws = []
      then Inr (VList (map (\<lambda>(k, v). VTuple [k, v]) kvs), [])
      else Inl TypeError)"
| "call (VAttr obj m) args kws = Inr (VObj (VAttr obj m) args kws, [])"
| "call _ args kws = Inl TypeError"

text \<open>
  \<open>d[k]\<close> on a dictionary raises \<open>KeyError\<close> for a missing key. \<open>a * b\<close> on a library
  object is its \<open>__mul__\<close> (the overlay of two plot elements).
\<close>

fun subscript :: "pyval \<Rightarrow> pyval \<Rightarrow> error + pyval" where
  "subscript (VDict kvs) k = (case map_of kvs k of None \<Rightarrow> Inl (KeyError k) | Some v \<Rightarrow> Inr v)"
| "subscript (VObj f args kws) i = Inr (VObj (VAttr (VObj f args kws) ''__getitem__'') [i] [])"
| "subscript _ _ = Inl Unsupported"

fun mult :: "pyval \<Rightarrow> pyval \<Rightarrow> error + pyval" where
  "mult (VInt a) (VInt b) = Inr (VInt (a * b))"
| "mult (VObj f args kws) r = Inr (VObj (VAttr (VObj f args kws) ''__mul__'') [r] [])"
| "mult _ _ = Inl Unsupported"

text \<open>
  The targets of a comprehension: one name takes the item itself, several names unpack it.
\<close>

definition bind_all :: "string list \<Rightarrow> pyval list \<Rightarrow> namespace \<Rightarrow> error + namespace" where
  "bind_all xs vs ns =
     (if length xs = length vs then Inr (fold (\<lambda>(x, v). AList.update x v) (zip xs vs) ns)
      else Inl ValueError)"

fun bind_targets :: "string list \<Rightarrow> pyval \<Rightarrow> namespace \<Rightarrow> error + namespace" where
  "bind_targets [x] v ns = Inr (AList.update x v ns)"
| "bind_targets xs (VTuple vs) ns = bind_all xs vs ns"
| "bind_targets xs (VList vs) ns = bind_all xs vs ns"
| "bind_targets xs _ ns = Inl TypeError"

fun collect :: "(error + 'a \<times> effect list) list \<Rightarrow> error + 'a list \<times> effect list" where
  "collect [] = Inr ([], [])"
| "collect (Inl err # rs) = Inl err"
| "collect (Inr (x, fx) # rs) =
     (case collect rs of Inl err \<Rightarrow> Inl err | Inr (xs, fx') \<Rightarrow> Inr (x # xs, fx @ fx'))"

definition make_dict :: "(pyval \<times> pyval) list \<Rightarrow> pyval" where
  "make_dict kvs = VDict (fold (\<lambda>(k, v). AList.update k v) kvs [])"

fun iter_items :: "pyval \<Rightarrow> error + pyval list" where
  "iter_items (VList items) = Inr items"
| "iter_items (VTuple items) = Inr items"
| "iter_items (VDict kvs) = Inr (map fst kvs)"
| "iter_items _ = Inl Unsupported"

subsection \<open>Evaluation of expressions\<close>

text \<open>
  \<open>eval lib ns e\<close> is the value of \<open>e\<close> in the namespace \<open>ns\<close> together with the
  effects of evaluating it, or the exception raised. Python 2 evaluates the function of
  a call, then its positional arguments, then its keyword arguments; in a dictionary
  display and in a dictionary comprehension it evaluates each value before its key. The
  variables of a dictionary comprehension are local to it. (Python 2 iterates over a
  dictionary in hash order; the model keeps the order of insertion.) A conditional
  expression is outside what the interpreter covers: it stops with \<open>Unsupported\<close>.
\<close>

function (sequential) eval :: "library \<Rightarrow> namespace \<Rightarrow> expr \<Rightarrow> error + pyval \<times> effect list"
and evals :: "library \<Rightarrow> namespace \<Rightarrow> expr list \<Rightarrow> error + pyval list \<times> effect list"
and eval_keywords :: "library \<Rightarrow> namespace \<Rightarrow> keyword list \<Rightarrow> error + (string \<times> pyval) list \<times> effect list"
and eval_items :: "library \<Rightarrow> namespace \<Rightarrow> expr list \<Rightarrow> expr list \<Rightarrow> error + (pyval \<times> pyval) list \<times> effect list"
where
  "eval lib ns (Str s) = Inr (VStr s, [])"
| "eval lib ns (Num n) = Inr (VInt n, [])"
| "eval lib ns (Name x) =
     (case map_of ns x of None \<Rightarrow> Inl (NameError x) | Some v \<Rightarrow> Inr (v, []))"
| "eval lib ns (Attribute e a) =
     (case eval lib ns e of Inl err \<Rightarrow> Inl err
      | Inr (v, fx) \<Rightarrow>
         (case getattr lib v a of Inl err \<Rightarrow> Inl err | Inr w \<Rightarrow> Inr (w, fx)))"
| "eval lib ns (Subscript e i) =
     (case eval lib ns e of Inl err \<Rightarrow> Inl err
      | Inr (v, fx) \<Rightarrow>
         (case eval lib ns i of Inl err \<Rightarrow> Inl err
          | Inr (k, fx') \<Rightarrow>
             (case subscript v k of Inl err \<Rightarrow> Inl err | Inr w \<Rightarrow> Inr (w, fx @ fx'))))"
| "eval lib ns (Call f args kws) =
     (case eval lib ns f of Inl err \<Rightarrow> Inl err
      | Inr (fv, fx) \<Rightarrow>
         (case evals lib ns args of Inl err \<Rightarrow> Inl err
          | Inr (avs, fx') \<Rightarrow>
             (case eval_keywords lib ns kws of Inl err \<Rightarrow> Inl err
              | Inr (kvs, fx'') \<Rightarrow>
                 (case call fv avs kvs of Inl err \<Rightarrow> Inl err
                  | Inr (r, fx''') \<Rightarrow> Inr (r, fx @ fx' @ fx'' @ fx''')))))"
| "eval lib ns (Dict ks vs) =
     (case eval_items lib ns ks vs of Inl err \<Rightarrow> Inl err
      | Inr (kvs, fx) \<Rightarrow> Inr (make_dict kvs, fx))"
| "eval lib ns (DictComp k v targets it) =
     (case eval lib ns it of Inl err \<Rightarrow> Inl err
      | Inr (itv, fx) \<Rightarrow>
        (case iter_items itv of Inl err \<Rightarrow> Inl err
         | Inr items \<Rightarrow>
         (case collect (map (\<lambda>item.
                 case bind_targets targets item ns of Inl err \<Rightarrow> Inl err
                 | Inr ns' \<Rightarrow>
                    (case eval lib ns' v of Inl err \<Rightarrow> Inl err
                     | Inr (vv, fx1) \<Rightarrow>
                        (case eval lib ns' k of Inl err \<Rightarrow> Inl err
                         | Inr (kv, fx2) \<Rightarrow> Inr ((kv, vv), fx1 @ fx2)))) items) of
            Inl err \<Rightarrow> Inl err
          | Inr (kvs, fx') \<Rightarrow> Inr (make_dict kvs, fx @ fx'))))"
| "eval lib ns (ListE es) =
     (case evals lib ns es of Inl err \<Rightarrow> Inl err | Inr (vs, fx) \<Rightarrow> Inr (VList vs, fx))"
| "eval lib ns (TupleE es) =
     (case evals lib ns es of Inl err \<Rightarrow> Inl err | Inr (vs, fx) \<Rightarrow> Inr (VTuple vs, fx))"
| "eval lib ns (Mult a b) =
     (case eval lib ns a of Inl err \<Rightarrow> Inl err
      | Inr (x, fx) \<Rightarrow>
         (case eval lib ns b of Inl err \<Rightarrow> Inl err
          | Inr (y, fx') \<Rightarrow>
             (case mult x y of Inl err \<Rightarrow> Inl err | Inr r \<Rightarrow> Inr (r, fx @ fx'))))"
| "eval lib ns (IfExp c a b) = Inl Unsupported"
| "evals lib ns [] = Inr ([], [])"
| "evals lib ns (e # es) =
     (case eval lib ns e of Inl err \<Rightarrow> Inl err
      | Inr (v, fx) \<Rightarrow>
         (case evals lib ns es of Inl err \<Rightarrow> Inl err
          | Inr (vs, fx') \<Rightarrow> Inr (v # vs, fx @ fx')))"
| "eval_keywords lib ns [] = Inr ([], [])"
| "eval_keywords lib ns (Keyword a e # kws) =
     (case eval lib ns e of Inl err \<Rightarrow> Inl err
      | Inr (v, fx) \<Rightarrow>
         (case eval_keywords lib ns kws of Inl err \<Rightarrow> Inl err
          | Inr (kvs, fx') \<Rightarrow> Inr ((a, v) # kvs, fx @ fx')))"
| "eval_items lib ns [] [] = Inr ([], [])"
| "eval_items lib ns (k # ks) (v # vs) =
     (case eval lib ns v of Inl err \<Rightarrow> Inl err
      | Inr (vv, fx) \<Rightarrow>
         (case eval lib ns k of Inl err \<Rightarrow> Inl err
          | Inr (kv, fx') \<Rightarrow>
             (case eval_items lib ns ks vs of Inl err \<Rightarrow> Inl err
              | Inr (kvs, fx'') \<Rightarrow> Inr ((kv, vv) # kvs, fx @ fx' @ fx''))))"
| "eval_items lib ns [] (v # vs) = Inl Unsupported"
| "eval_items lib ns (k # ks) [] = Inl Unsupported"
  by pat_completeness auto

termination
  apply (relation "measure (\<lambda>x. case x of
      Inl (Inl (lib, ns, e)) \<Rightarrow> size e
    | Inl (Inr (lib, ns, es)) \<Rightarrow> size_list size es
    | Inr (Inl (lib, ns, kws)) \<Rightarrow> size_list size kws
    | Inr (Inr (lib, ns, ks, vs)) \<Rightarrow> size_list size ks + size_list size vs)")
  apply simp_all
  done

subsection \<open>Statements, cells and the kernel\<close>

text \<open>
  The state of the kernel is its namespace and the effects so far. \<open>import a.b\<close> binds
  \<open>a\<close>; \<open>import a.b as c\<close> binds \<open>c\<close> to the module \<open>a.b\<close>. An assignment to anything
  but a name, and every compound statement, stops the run with \<open>Unsupported\<close>: a run that
  succeeds has executed none of them. An exception ends the run, as in
  \<open>Run All\<close>.
\<close>

record state =
  ns :: namespace
  effects :: "effect list"

definition top_module :: "string \<Rightarrow> string" where
  "top_module m = takeWhile (\<lambda>c. c \<noteq> CHR ''.'') m"

fun exec :: "library \<Rightarrow> state \<Rightarrow> stmt \<Rightarrow> error + state" where
  "exec lib s (Import m None) =
     Inr (s\<lparr>ns := AList.update (top_module m) (lib (top_module m)) (ns s)\<rparr>)"
| "exec lib s (Import m (Some a)) = Inr (s\<lparr>ns := AList.update a (lib m) (ns s)\<rparr>)"
| "exec lib s (ImportFrom m n None) =
     Inr (s\<lparr>ns := AList.update n (lib (m @ ''.'' @ n)) (ns s)\<rparr>)"
| "exec lib s (ImportFrom m n (Some a)) =
     Inr (s\<lparr>ns := AList.update a (lib (m @ ''.'' @ n)) (ns s)\<rparr>)"
| "exec lib s (Assign (Name x) e) =
     (case eval lib (ns s) e of Inl err \<Rightarrow> Inl err
      | Inr (v, fx) \<Rightarrow> Inr \<lparr>ns = AList.update x v (ns s), effects = effects s @ fx\<rparr>)"
| "exec lib s (ExprStmt e) =
     (case eval lib (ns s) e of Inl err \<Rightarrow> Inl err
      | Inr (v, fx) \<Rightarrow> Inr (s\<lparr>effects := effects s @ fx\<rparr>))"
| "exec lib s _ = Inl Unsupported"

fun exec_all :: "library \<Rightarrow> state \<Rightarrow> stmt list \<Rightarrow> error + state" where
  "exec_all lib s [] = Inr s"
| "exec_all lib s (x # xs) =
     (case exec lib s x of Inl err \<Rightarrow> Inl err | Inr s' \<Rightarrow> exec_all lib s' xs)"

fun run_cell :: "library \<Rightarrow> state \<Rightarrow> cell \<Rightarrow> error + state" where
  "run_cell lib s Markdown = Inr s"
| "run_cell lib s (Code magics body) = exec_all lib s body"

fun run_cells :: "library \<Rightarrow> state \<Rightarrow> cell list \<Rightarrow> error + state" where
  "run_cells lib s [] = Inr s"
| "run_cells lib s (c # cs) =
     (case run_cell lib s c of Inl err \<Rightarrow> Inl err | Inr s' \<Rightarrow> run_cells lib s' cs)"

text \<open>
  \<open>STAMEN_TONER\<close> is a constant of \<open>bokeh.tile_providers\<close>, whose source is not part
  of the repository: its value is a parameter. Every other import is a symbolic library
  object.
\<close>

definition fresh_kernel :: state where
  "fresh_kernel = \<lparr>ns = [], effects = []\<rparr>"

definition library :: "pyval \<Rightarrow> library" where
  "library stamen q = (if q = ''bokeh.tile_providers.STAMEN_TONER'' then stamen else VLib q)"

definition run_notebook :: "pyval \<Rightarrow> error + state" where
  "run_notebook stamen = run_cells (library stamen) fresh_kernel notebook"

definition kernel_after :: "pyval \<Rightarrow> nat \<Rightarrow> error + state" where
  "kernel_after stamen n = run_cells (library stamen) fresh_kernel (take n notebook)"

text \<open>
  \<open>run_notebook\<close> runs all cells in a fresh kernel, \<open>kernel_after stamen n\<close> the first
  \<open>n\<close> of them. The files read by a run are the paths of its effects.
\<close>

fun path_of :: "effect \<Rightarrow> string" where
  "path_of (FileRead f path) = path"

definition files_read :: "pyval \<Rightarrow> string list" where
  "files_read stamen =
     (case run_notebook stamen of Inl err \<Rightarrow> [] | Inr st \<Rightarrow> map path_of (effects st))"


subsection \<open>Names read and names bound\<close>

text \<open>
  \<open>reads e\<close> lists the names \<open>e\<close> reads from the namespace, in evaluation order; the
  variables of a comprehension are its own. \<open>stmt_binds s\<close> lists the names \<open>s\<close> binds
  there. \<open>bound_by_earlier_cells cells i\<close> are the names bound by the cells before cell
  \<open>i\<close>; \<open>bound_before cells i k\<close> adds those bound by the first \<open>k\<close> statements of
  cell \<open>i\<close> itself.
\<close>

primrec reads :: "expr \<Rightarrow> string list"
and reads_keyword :: "keyword \<Rightarrow> string list" where
  "reads (Str s) = []"
| "reads (Num n) = []"
| "reads (Name x) = [x]"
| "reads (Attribute e a) = reads e"
| "reads (Subscript e i) = reads e @ reads i"
| "reads (Call f args kws) = reads f @ concat (map reads args) @ concat (map reads_keyword kws)"
| "reads (Dict ks vs) = concat (map reads ks) @ concat (map reads vs)"
| "reads (DictComp k v targets it) =
     reads it @ filter (\<lambda>x. x \<notin> set targets) (reads k @ reads v)"
| "reads (ListE es) = concat (map reads es)"
| "reads (TupleE es) = concat (map reads es)"
| "reads (Mult a b) = reads a @ reads b"
| "reads (IfExp c a b) = reads c @ reads a @ reads b"
| "reads_keyword (Keyword a e) = reads e"

fun target_names :: "expr \<Rightarrow> string list" where
  "target_names (Name x) = [x]"
| "target_names (TupleE es) = concat (map target_names es)"
| "target_names (ListE es) = concat (map target_names es)"
| "target_names _ = []"

fun target_reads :: "expr \<Rightarrow> string list" where
  "target_reads (Name x) = []"
| "target_reads (TupleE es) = concat (map target_reads es)"
| "target_reads (ListE es) = concat (map target_reads es)"
| "target_reads e = reads e"

fun stmt_binds :: "stmt \<Rightarrow> string list" where
  "stmt_binds (Import m None) = [top_module m]"
| "stmt_binds (Import m (Some a)) = [a]"
| "stmt_binds (ImportFrom m n None) = [n]"
| "stmt_binds (ImportFrom m n (Some a)) = [a]"
| "stmt_binds (Assign t e) = target_names t"
| "stmt_binds (ExprStmt e) = []"
| "stmt_binds (If c a b) = concat (map stmt_binds a) @ concat (map stmt_binds b)"
| "stmt_binds (For t it blk) = target_names t @ concat (map stmt_binds blk)"
| "stmt_binds (While c blk) = concat (map stmt_binds blk)"

fun stmt_reads :: "stmt \<Rightarrow> string list" where
  "stmt_reads (Import m a) = []"
| "stmt_reads (ImportFrom m n a) = []"
| "stmt_reads (Assign t e) = reads e @ target_reads t"
| "stmt_reads (ExprStmt e) = reads e"
| "stmt_reads (If c a b) = reads c @ concat (map stmt_reads a) @ concat (map stmt_reads b)"
| "stmt_reads (For t it blk) = reads it @ target_reads t @ concat (map stmt_reads blk)"
| "stmt_reads (While c blk) = reads c @ concat (map stmt_reads blk)"

fun body :: "cell \<Rightarrow> stmt list" where
  "body Markdown = []"
| "body (Code magics stmts) = stmts"

definition cell_reads :: "cell \<Rightarrow> string list" where
  "cell_reads c = concat (map stmt_reads (body c))"

definition cell_binds :: "cell \<Rightarrow> string list" where
  "cell_binds c = concat (map stmt_binds (body c))"

definition bound_by_earlier_cells :: "cell list \<Rightarrow> nat \<Rightarrow> string list" where
  "bound_by_earlier_cells cells i = concat (map cell_binds (take i cells))"

definition bound_before :: "cell list \<Rightarrow> nat \<Rightarrow> nat \<Rightarrow> string list" where
  "bound_before cells i k =
     bound_by_earlier_cells cells i @ concat (map stmt_binds (take k (body (cells ! i))))"

definition all_bound :: "string list \<Rightarrow> string list \<Rightarrow> bool" where
  "all_bound names bound \<longleftrightarrow> list_all (\<lambda>x. x \<in> set bound) names"

definition binders :: "string \<Rightarrow> cell list \<Rightarrow> stmt list" where
  "binders x cells = filter (\<lambda>s. x \<in> set (stmt_binds s)) (concat (map body cells))"

subsection \<open>Control flow\<close>

text \<open>
  The constructs of a cell whose evaluation is not straight-line: conditionals
  (\<open>if\<close> statements and conditional expressions), loop statements (\<open>for\<close>,
  \<open>while\<close>) and comprehensions, which run their body once for every item.
\<close>

datatype construct = Conditional | Loop | Comprehension

primrec constructs :: "expr \<Rightarrow> construct list"
and constructs_keyword :: "keyword \<Rightarrow> construct list" where
  "constructs (Str s) = []"
| "constructs (Num n) = []"
| "constructs (Name x) = []"
| "constructs (Attribute e a) = constructs e"
| "constructs (Subscript e i) = constructs e @ constructs i"
| "constructs (Call f args kws) =
     constructs f @ concat (map constructs args) @ concat (map constructs_keyword kws)"
| "constructs (Dict ks vs) = concat (map constructs ks) @ concat (map constructs vs)"
| "constructs (DictComp k v targets it) =
     Comprehension # constructs it @ constructs k @ constructs v"
| "constructs (ListE es) = concat (map constructs es)"
| "constructs (TupleE es) = concat (map constructs es)"
| "constructs (Mult a b) = constructs a @ constructs b"
| "constructs (IfExp c a b) = Conditional # constructs c @ constructs a @ constructs b"
| "constructs_keyword (Keyword a e) = constructs e"

fun stmt_constructs :: "stmt \<Rightarrow> construct list" where
  "stmt_constructs (Import m a) = []"
| "stmt_constructs (ImportFrom m n a) = []"
| "stmt_constructs (Assign t e) = constructs t @ constructs e"
| "stmt_constructs (ExprStmt e) = constructs e"
| "stmt_constructs (If c a b) =
     Conditional # constructs c @ concat (map stmt_constructs a) @ concat (map stmt_constructs b)"
| "stmt_constructs (For t it blk) =
     Loop # constructs it @ concat (map stmt_constructs blk)"
| "stmt_constructs (While c blk) =
     Loop # constructs c @ concat (map stmt_constructs blk)"

definition cell_constructs :: "cell \<Rightarrow> construct list" where
  "cell_constructs c = concat (map stmt_constructs (body c))"

text \<open>
  The comprehensions of a cell, as expressions, outermost first.
\<close>

primrec comprehensions :: "expr \<Rightarrow> expr list"
and comprehensions_keyword :: "keyword \<Rightarrow> expr list" where
  "comprehensions (Str s) = []"
| "comprehensions (Num n) = []"
| "comprehensions (Name x) = []"
| "comprehensions (Attribute e a) = comprehensions e"
| "comprehensions (Subscript e i) = comprehensions e @ comprehensions i"
| "comprehensions (Call f args kws) =
     comprehensions f @ concat (map comprehensions args) @
     concat (map comprehensions_keyword kws)"
| "comprehensions (Dict ks vs) = concat (map comprehensions ks) @ concat (map comprehensions vs)"
| "comprehensions (DictComp k v targets it) =
     DictComp k v targets it # comprehensions it @ comprehensions k @ comprehensions v"
| "comprehensions (ListE es) = concat (map comprehensions es)"
| "comprehensions (TupleE es) = concat (map comprehensions es)"
| "comprehensions (Mult a b) = comprehensions a @ comprehensions b"
| "comprehensions (IfExp c a b) = comprehensions c @ comprehensions a @ comprehensions b"
| "comprehensions_keyword (Keyword a e) = comprehensions e"

fun stmt_comprehensions :: "stmt \<Rightarrow> expr list" where
  "stmt_comprehensions (Assign t e) = comprehensions t @ comprehensions e"
| "stmt_comprehensions (ExprStmt e) = comprehensions e"
| "stmt_comprehensions (If c a b) =
     comprehensions c @ concat (map stmt_comprehensions a) @ concat (map stmt_comprehensions b)"
| "stmt_comprehensions (For t it blk) =
     comprehensions it @ concat (map stmt_comprehensions blk)"
| "stmt_comprehensions (While c blk) =
     comprehensions c @ concat (map stmt_comprehensions blk)"
| "stmt_comprehensions _ = []"

definition cell_comprehensions :: "cell \<Rightarrow> expr list" where
  "cell_comprehensions c = concat (map stmt_comprehensions (body c))"

subsection \<open>Tile sources and URL templates\<close>

text \<open>
  A tile URL template is a http(s) URL with the placeholders \<open>{X}\<close>, \<open>{Y}\<close> and
  \<open>{Z}\<close> of bokeh's tile format (column, row and zoom level). A tile-source value object
  is what a call \<open>WMTSTileSource(url=u)\<close> returns, for a template \<open>u\<close>.
  \<open>occurrences p s\<close> counts the positions of \<open>s\<close> at which \<open>p\<close> starts.
\<close>

fun starts_with :: "string \<Rightarrow> string \<Rightarrow> bool" where
  "starts_with [] s = True"
| "starts_with (p # ps) [] = False"
| "starts_with (p # ps) (c # cs) = (p = c \<and> starts_with ps cs)"

fun occurrences :: "string \<Rightarrow> string \<Rightarrow> nat" where
  "occurrences p [] = (if p = [] then 1 else 0)"
| "occurrences p (c # cs) = (if starts_with p (c # cs) then 1 else 0) + occurrences p cs"

fun contains :: "string \<Rightarrow> string \<Rightarrow> bool" where
  "contains p [] = (p = [])"
| "contains p (c # cs) = (starts_with p (c # cs) \<or> contains p cs)"



definition tiles_entries :: "state \<Rightarrow> (pyval \<times> pyval) list" where
  "tiles_entries st = (case map_of (ns st) ''tiles'' of Some (VDict kvs) \<Rightarrow> kvs | _ \<Rightarrow> [])"

text \<open>
  The dictionary \<open>tiles\<close> as the tiles cell writes it, with the value of the imported
  \<open>STAMEN_TONER\<close> as a parameter; \<open>tiles_of\<close> and \<open>tiles_after\<close> read the dictionary
  from the kernel after the whole run and after the first \<open>n\<close> cells.
\<close>

definition tiles_dict :: "pyval \<Rightarrow> (pyval \<times> pyval) list" where
  "tiles_dict stamen =
    [(VStr ''OpenMap'',
      VObj (VLib ''bokeh.models.WMTSTileSource'') []
        [(''url'', VStr ''http://c.tile.openstreetmap.org/{Z}/{X}/{Y}.png'')]),
     (VStr ''ESRI'',
      VObj (VLib ''bokeh.models.WMTSTileSource'') []
        [(''url'', VStr ''https://server.arcgisonline.com/ArcGIS/rest/services/World_Imagery/MapServer/tile/{Z}/{Y}/{X}.jpg'')]),
     (VStr ''Wikipedia'',
      VObj (VLib ''bokeh.models.WMTSTileSource'') []
        [(''url'', VStr ''https://maps.wikimedia.org/osm-intl/{Z}/{X}/{Y}@2x.png'')]),
     (VStr ''Stamen Toner'', stamen)]"



definition tiles_after :: "pyval \<Rightarrow> nat \<Rightarrow> pyval option" where
  "tiles_after stamen n =
     (case kernel_after stamen n of Inl err \<Rightarrow> None | Inr st \<Rightarrow> map_of (ns st) ''tiles'')"

definition lookup_after :: "pyval \<Rightarrow> nat \<Rightarrow> expr \<Rightarrow> error + pyval \<times> effect list" where
  "lookup_after stamen n e =
     (case kernel_after stamen n of Inl err \<Rightarrow> Inl err
      | Inr st \<Rightarrow> eval (library stamen) (ns st) e)"

fun placeholders :: "string \<Rightarrow> string list" where
  "placeholders [] = []"
| "placeholders (c # cs) =
     (if starts_with ''{X}'' (c # cs) then [''{X}'']
      else if starts_with ''{Y}'' (c # cs) then [''{Y}'']
      else if starts_with ''{Z}'' (c # cs) then [''{Z}'']
      else []) @ placeholders cs"

definition tile_url :: "state \<Rightarrow> string \<Rightarrow> string option" where
  "tile_url st k =
     (case map_of (tiles_entries st) (VStr k) of
        Some (VObj f args kws) \<Rightarrow>
          (case map_of kws ''url'' of Some (VStr u) \<Rightarrow> Some u | _ \<Rightarrow> None)
      | _ \<Rightarrow> None)"

primrec url_literals :: "expr \<Rightarrow> string list"
and url_literals_keyword :: "keyword \<Rightarrow> string list" where
  "url_literals (Str s) = []"
| "url_literals (Num n) = []"
| "url_literals (Name x) = []"
| "url_literals (Attribute e a) = url_literals e"
| "url_literals (Subscript e i) = url_literals e @ url_literals i"
| "url_literals (Call f args kws) =
     url_literals f @ concat (map url_literals args) @ concat (map url_literals_keyword kws)"
| "url_literals (Dict ks vs) = concat (map url_literals ks) @ concat (map url_literals vs)"
| "url_literals (DictComp k v targets it) = url_literals it @ url_literals k @ url_literals v"
| "url_literals (ListE es) = concat (map url_literals es)"
| "url_literals (TupleE es) = concat (map url_literals es)"
| "url_literals (Mult a b) = url_literals a @ url_literals b"
| "url_literals (IfExp c a b) = url_literals c @ url_literals a @ url_literals b"
| "url_literals_keyword (Keyword a e) =
     (case e of Str s \<Rightarrow> (if a = ''url'' then [s] else []) | _ \<Rightarrow> url_literals e)"

fun stmt_url_literals :: "stmt \<Rightarrow> string list" where
  "stmt_url_literals (Assign t e) = url_literals e"
| "stmt_url_literals (ExprStmt e) = url_literals e"
| "stmt_url_literals (If c a b) =
     url_literals c @ concat (map stmt_url_literals a) @ concat (map stmt_url_literals b)"
| "stmt_url_literals (For t it blk) = url_literals it @ concat (map stmt_url_literals blk)"
| "stmt_url_literals (While c blk) = url_literals c @ concat (map stmt_url_literals blk)"
| "stmt_url_literals _ = []"

definition constructed_urls :: "cell list \<Rightarrow> string list" where
  "constructed_urls cells = concat (map stmt_url_literals (concat (map body cells)))"

definition tile_url_of :: "pyval \<Rightarrow> string \<Rightarrow> string option" where
  "tile_url_of stamen k =
     (case run_notebook stamen of Inl err \<Rightarrow> None | Inr st \<Rightarrow> tile_url st k)"

subsection \<open>Path literals\<close>

text \<open>
  The string literals of the code, in source order, and those among them that are paths
  of files: the literals with a \<open>/\<close> that are not URLs.
\<close>

primrec literals :: "expr \<Rightarrow> string list"
and literals_keyword :: "keyword \<Rightarrow> string list" where
  "literals (Str s) = [s]"
| "literals (Num n) = []"
| "literals (Name x) = []"
| "literals (Attribute e a) = literals e"
| "literals (Subscript e i) = literals e @ literals i"
| "literals (Call f args kws) =
     literals f @ concat (map literals args) @ concat (map literals_keyword kws)"
| "literals (Dict ks vs) = concat (map literals ks) @ concat (map literals vs)"
| "literals (DictComp k v targets it) = literals k @ literals v @ literals it"
| "literals (ListE es) = concat (map literals es)"
| "literals (TupleE es) = concat (map literals es)"
| "literals (Mult a b) = literals a @ literals b"
| "literals (IfExp c a b) = literals a @ literals c @ literals b"
| "literals_keyword (Keyword a e) = literals e"

fun stmt_literals :: "stmt \<Rightarrow> string list" where
  "stmt_literals (Assign t e) = literals t @ literals e"
| "stmt_literals (ExprStmt e) = literals e"
| "stmt_literals (If c a b) =
     literals c @ concat (map stmt_literals a) @ concat (map stmt_literals b)"
| "stmt_literals (For t it blk) = literals t @ literals it @ concat (map stmt_literals blk)"
| "stmt_literals (While c blk) = literals c @ concat (map stmt_literals blk)"
| "stmt_literals _ = []"

definition is_path :: "string \<Rightarrow> bool" where
  "is_path s \<longleftrightarrow> contains ''/'' s \<and> \<not> contains ''://'' s"

definition path_literals :: "cell list \<Rightarrow> string list" where
  "path_literals cells = filter is_path (concat (map stmt_literals (concat (map body cells))))"

subsection \<open>The choropleth join\<close>

text \<open>
  The choropleth cell calls \<open>gv.Shape.from_records\<close>, a method of geoviews whose code is
  not in the notebook. A record of the shapefile has attributes and a geometry (here an
  identifier of the boundary polygon); a row of the dataset maps column names to values;
  a shape of the choropleth is a boundary with its label and the value that shades it,
  if the dataset has one.
\<close>

record shape_record =
  attributes :: "(string \<times> string) list"
  geometry :: nat

type_synonym row = "(string \<times> string) list"

record shape =
  boundary :: nat
  label :: "string option"
  level :: "string option"

text \<open>
  Modelled from the spec: \<open>gv.Shape.from_records\<close>, which the repository defines outside
  the notebook. The spec has the dataset "joined against shapefile-derived boundary
  geometries" and a choropleth "shaded by a data value associated with each discrete
  region": every record gives one shape, whose value is the \<open>value\<close> column of the
  row of the dataset that has the record's \<open>on\<close> attribute in its \<open>on\<close> column.
\<close>

definition joined_row :: "row list \<Rightarrow> string \<Rightarrow> shape_record \<Rightarrow> row option" where
  "joined_row dataset on r =
     (case map_of (attributes r) on of
        None \<Rightarrow> None
      | Some key \<Rightarrow> find (\<lambda>row. map_of row on = Some key) dataset)"

definition from_records ::
  "shape_record list \<Rightarrow> row list \<Rightarrow> string \<Rightarrow> string \<Rightarrow> string \<Rightarrow> shape list" where
  "from_records records dataset on val index =
     map (\<lambda>r. \<lparr>boundary = geometry r,
                label = map_of (attributes r) index,
                level = (case joined_row dataset on r of
                           None \<Rightarrow> None
                         | Some row \<Rightarrow> map_of row val)\<rparr>) records"

text \<open>
  The call of the choropleth cell, with the keyword arguments \<open>on\<close>, \<open>value\<close> and
  \<open>index\<close> it is written with: its first argument is \<open>shapes.records()\<close>, the records
  of the shapefile, its second the dataset \<open>referendum\<close>.
\<close>

fun keyword_arg :: "keyword list \<Rightarrow> string \<Rightarrow> string option" where
  "keyword_arg [] a = None"
| "keyword_arg (Keyword b e # kws) a =
     (if a = b then (case e of Str s \<Rightarrow> Some s | _ \<Rightarrow> None) else keyword_arg kws a)"

definition choropleth :: "shape_record list \<Rightarrow> row list \<Rightarrow> shape list option" where
  "choropleth records dataset =
     (case body cell_choropleth of
        [ExprStmt (Call f [Call (Attribute (Name shp) m) [] [], Name ds] kws)] \<Rightarrow>
          (if f = Attribute (Attribute (Name ''gv'') ''Shape'') ''from_records'' \<and>
              shp = ''shapes'' \<and> m = ''records'' \<and> ds = ''referendum'' then
             (case (keyword_arg kws ''on'', keyword_arg kws ''value'', keyword_arg kws ''index'') of
                (Some on, Some val, Some index) \<Rightarrow>
                  Some (from_records records dataset on val index)
              | _ \<Rightarrow> None)
           else None)
      | _ \<Rightarrow> None)"

definition key_of :: "string \<Rightarrow> row list \<Rightarrow> bool" where
  "key_of col dataset \<longleftrightarrow>
     list_all (\<lambda>row. map_of row col \<noteq> None) dataset \<and>
     distinct (map (\<lambda>row. map_of row col) dataset)"

definition the_choropleth :: "shape_record list \<Rightarrow> row list \<Rightarrow> shape list" where
  "the_choropleth records dataset =
     (case choropleth records dataset of None \<Rightarrow> [] | Some shapes \<Rightarrow> shapes)"


section \<open>Properties of the kernel\<close>

text \<open>
  Running a list of cells is running a first part and then the rest. A statement
  changes the namespace only at the names it binds, so a name that no statement of a
  run binds keeps its value through the run.
\<close>

lemma run_cells_append:
  "run_cells lib s (xs @ ys) =
     (case run_cells lib s xs of Inl err \<Rightarrow> Inl err | Inr s' \<Rightarrow> run_cells lib s' ys)"
  by (induction xs arbitrary: s) (auto split: sum.splits)

lemma map_of_update_other: "x \<noteq> k \<Longrightarrow> map_of (AList.update k v al) x = map_of al x"
  by (simp add: update_conv')

lemma exec_frame:
  "exec lib s x = Inr s' \<Longrightarrow> n \<notin> set (stmt_binds x) \<Longrightarrow> map_of (ns s') n = map_of (ns s) n"
  by (induction lib s x rule: exec.induct) (auto simp: map_of_update_other split: sum.splits)

lemma exec_all_frame:
  "exec_all lib s xs = Inr s' \<Longrightarrow> n \<notin> set (concat (map stmt_binds xs)) \<Longrightarrow>
   map_of (ns s') n = map_of (ns s) n"
proof (induction xs arbitrary: s)
  case Nil
  then show ?case by simp
next
  case (Cons x xs)
  from Cons.prems(1) obtain s1 where x: "exec lib s x = Inr s1" and xs: "exec_all lib s1 xs = Inr s'"
    by (auto split: sum.splits)
  from Cons.prems(2) have "n \<notin> set (stmt_binds x)" and "n \<notin> set (concat (map stmt_binds xs))"
    by auto
  then show ?case
    using exec_frame [OF x] Cons.IH [OF xs] by simp
qed

lemma run_cell_frame:
  "map_of (ns s') n = map_of (ns s) n"
  if "run_cell lib s c = Inr s'" and "n \<notin> set (cell_binds c)"
proof (cases c)
  case Markdown
  then show ?thesis using that by simp
next
  case (Code magics stmts)
  with that have "exec_all lib s stmts = Inr s'" and "n \<notin> set (concat (map stmt_binds stmts))"
    by (simp_all add: cell_binds_def)
  then show ?thesis by (rule exec_all_frame)
qed

lemma run_cells_frame:
  "run_cells lib s cs = Inr s' \<Longrightarrow> n \<notin> set (concat (map cell_binds cs)) \<Longrightarrow>
   map_of (ns s') n = map_of (ns s) n"
proof (induction cs arbitrary: s)
  case Nil
  then show ?case by simp
next
  case (Cons c cs)
  from Cons.prems(1) obtain s1 where c: "run_cell lib s c = Inr s1" and cs: "run_cells lib s1 cs = Inr s'"
    by (auto split: sum.splits)
  from Cons.prems(2) have "n \<notin> set (cell_binds c)" and "n \<notin> set (concat (map cell_binds cs))"
    by auto
  then show ?case
    using run_cell_frame [OF c] Cons.IH [OF cs] by simp
qed

section \<open>The run of the notebook\<close>

text \<open>
  Whatever \<open>STAMEN_TONER\<close> is, the run of all cells in a fresh kernel succeeds, with
  four file reads, and leaves the dictionary of the tiles cell in \<open>tiles\<close>. No cell after
  the tiles cell binds \<open>tiles\<close>, so it holds that dictionary after every later cell.
\<close>

lemma notebook_run:
  "map_sum (\<lambda>err. err) (\<lambda>st. (effects st, tiles_entries st)) (run_notebook s) =
     Inr ([FileRead ''pandas.read_csv'' ''./assets/cities.csv'',
           FileRead ''cartopy.io.shapereader.Reader'' ''./assets/boundaries/boundaries.shp'',
           FileRead ''pandas.read_csv'' ''./assets/referendum.csv'',
           FileRead ''xarray.open_dataset'' ''./sample-data/pre-industrial.nc''],
          tiles_dict s)"
  by code_simp

lemma notebook_runs:
  obtains st where "run_notebook s = Inr st"
    and "effects st =
          [FileRead ''pandas.read_csv'' ''./assets/cities.csv'',
           FileRead ''cartopy.io.shapereader.Reader'' ''./assets/boundaries/boundaries.shp'',
           FileRead ''pandas.read_csv'' ''./assets/referendum.csv'',
           FileRead ''xarray.open_dataset'' ''./sample-data/pre-industrial.nc'']"
    and "tiles_entries st = tiles_dict s"
  using notebook_run [of s] by (cases "run_notebook s") auto

lemma tiles_after_5: "tiles_after s 5 = Some (VDict (tiles_dict s))"
  by code_simp

lemma later_cells_keep_tiles: "''tiles'' \<notin> set (concat (map cell_binds (drop 5 notebook)))"
  by code_simp

lemma prefix_runs:
  obtains st where "kernel_after s n = Inr st"
proof -
  obtain fin where fin: "run_notebook s = Inr fin"
    by (rule notebook_runs)
  have "run_cells (library s) fresh_kernel (take n notebook @ drop n notebook) = Inr fin"
    using fin by (simp add: run_notebook_def)
  then show ?thesis
    using that unfolding run_cells_append kernel_after_def by (auto split: sum.splits)
qed

lemma tiles_after_later:
  assumes "5 \<le> n"
  shows "tiles_after s n = Some (VDict (tiles_dict s))"
proof -
  obtain st where st: "kernel_after s n = Inr st"
    by (rule prefix_runs)
  obtain st5 where st5: "kernel_after s 5 = Inr st5"
    by (rule prefix_runs)
  have split: "take n notebook = take 5 notebook @ take (n - 5) (drop 5 notebook)"
    using assms by (metis le_add_diff_inverse take_add)
  have rest: "run_cells (library s) st5 (take (n - 5) (drop 5 notebook)) = Inr st"
    using st st5 unfolding kernel_after_def split run_cells_append by simp
  have "set (take (n - 5) (drop 5 notebook)) \<subseteq> set (drop 5 notebook)"
    by (rule set_take_subset)
  then have "''tiles'' \<notin> set (concat (map cell_binds (take (n - 5) (drop 5 notebook))))"
    using later_cells_keep_tiles by auto
  from run_cells_frame [OF rest this] have "map_of (ns st) ''tiles'' = map_of (ns st5) ''tiles''" .
  moreover have "map_of (ns st5) ''tiles'' = Some (VDict (tiles_dict s))"
    using tiles_after_5 [of s] st5 by (simp add: tiles_after_def)
  ultimately show ?thesis
    using st by (simp add: tiles_after_def)
qed

section \<open>The claims\<close>

subsection \<open>C1: the files read\<close>

lemma path_literals_notebook:
  "path_literals notebook =
     [''./assets/cities.csv'', ''./assets/boundaries/boundaries.shp'',
      ''./assets/referendum.csv'', ''./sample-data/pre-industrial.nc'']"
  by code_simp

text \<open>
  C1, as amended. The notebook reads four files, not three: the CSV of city populations,
  the shapefile of boundaries, the CSV of referendum results and the raster file. Each is
  read by a single load call on its path (\<open>pd.read_csv\<close>,
  \<open>cartopy.io.shapereader.Reader\<close>, \<open>pd.read_csv\<close>, \<open>xr.open_dataset\<close>), in this
  order, and no other file is read: the run has no other read, and the code has no other
  path literal.
\<close>

theorem notebook_reads_four_files:
  "\<exists>st. run_notebook stamen = Inr st \<and>
     effects st =
       [FileRead ''pandas.read_csv'' ''./assets/cities.csv'',
        FileRead ''cartopy.io.shapereader.Reader'' ''./assets/boundaries/boundaries.shp'',
        FileRead ''pandas.read_csv'' ''./assets/referendum.csv'',
        FileRead ''xarray.open_dataset'' ''./sample-data/pre-industrial.nc''] \<and>
     files_read stamen =
       [''./assets/cities.csv'', ''./assets/boundaries/boundaries.shp'',
        ''./assets/referendum.csv'', ''./sample-data/pre-industrial.nc''] \<and>
     distinct (files_read stamen) \<and>
     path_literals notebook = files_read stamen"
proof -
  obtain st where st: "run_notebook stamen = Inr st"
    and fx: "effects st =
       [FileRead ''pandas.read_csv'' ''./assets/cities.csv'',
        FileRead ''cartopy.io.shapereader.Reader'' ''./assets/boundaries/boundaries.shp'',
        FileRead ''pandas.read_csv'' ''./assets/referendum.csv'',
        FileRead ''xarray.open_dataset'' ''./sample-data/pre-industrial.nc'']"
    by (rule notebook_runs)
  then show ?thesis
    by (simp add: files_read_def path_literals_notebook)
qed

text \<open>
  C1 as stated speaks of three input files; the run reads four different paths.
\<close>

theorem three_input_files_counterexample:
  "card (set (files_read (VLib ''bokeh.tile_providers.STAMEN_TONER''))) \<noteq> 3"
proof -
  obtain st where st: "run_notebook (VLib ''bokeh.tile_providers.STAMEN_TONER'') = Inr st"
    and fx: "effects st =
       [FileRead ''pandas.read_csv'' ''./assets/cities.csv'',
        FileRead ''cartopy.io.shapereader.Reader'' ''./assets/boundaries/boundaries.shp'',
        FileRead ''pandas.read_csv'' ''./assets/referendum.csv'',
        FileRead ''xarray.open_dataset'' ''./sample-data/pre-industrial.nc'']"
    by (rule notebook_runs)
  then have "files_read (VLib ''bokeh.tile_providers.STAMEN_TONER'') =
       [''./assets/cities.csv'', ''./assets/boundaries/boundaries.shp'',
        ''./assets/referendum.csv'', ''./sample-data/pre-industrial.nc'']"
    by (simp add: files_read_def)
  then show ?thesis
    by simp
qed

subsection \<open>C3: the values of the tiles dictionary\<close>




subsection \<open>C4: names are bound before they are read\<close>

lemma names_bound_check:
  "list_all (\<lambda>i. list_all (\<lambda>k.
       all_bound (stmt_reads (body (notebook ! i) ! k)) (bound_before notebook i k))
     [0..<length (body (notebook ! i))]) [0..<length notebook]"
  by code_simp

text \<open>
  C4, as amended. Every name a statement reads was bound before: by a cell before the
  statement's cell or by an earlier statement of the same cell. So the cells, run in
  order, never read an undefined name: the run succeeds.
\<close>

theorem names_bound_before_read:
  "(\<forall>i<length notebook. \<forall>k<length (body (notebook ! i)).
      all_bound (stmt_reads (body (notebook ! i) ! k)) (bound_before notebook i k)) \<and>
   (\<exists>st. run_notebook stamen = Inr st)"
proof
  show "\<forall>i<length notebook. \<forall>k<length (body (notebook ! i)).
      all_bound (stmt_reads (body (notebook ! i) ! k)) (bound_before notebook i k)"
    using names_bound_check by (simp add: list_all_iff)
  show "\<exists>st. run_notebook stamen = Inr st"
    using notebook_runs [of stamen] by blast
qed

text \<open>
  The statement \<open>population = gv.Dataset(cities, ...)\<close>, the second of cell 9, reads
  \<open>gv\<close> and \<open>cities\<close>.
\<close>

theorem names_bound_before_read_witness:
  "9 < length notebook \<and> 1 < length (body (notebook ! 9)) \<and>
   all_bound (stmt_reads (body (notebook ! 9) ! 1)) (bound_before notebook 9 1)"
proof -
  have i: "9 < length notebook"
    by (simp add: notebook_def)
  have k: "1 < length (body (notebook ! 9))"
    by (simp add: notebook_def cell_cities_def)
  from names_bound_before_read [of "VLib ''bokeh.tile_providers.STAMEN_TONER''"] i k show ?thesis
    by blast
qed

text \<open>
  C4 as stated wants every name a cell reads bound by a strictly earlier cell. Cell 9
  reads \<open>cities\<close>, which no earlier cell binds: cell 9 binds it itself, in its first
  statement.
\<close>

theorem reads_of_earlier_cells_counterexample:
  "notebook ! 9 = cell_cities \<and>
   ''cities'' \<in> set (cell_reads (notebook ! 9)) \<and>
   ''cities'' \<notin> set (bound_by_earlier_cells notebook 9) \<and>
   \<not> all_bound (cell_reads (notebook ! 9)) (bound_by_earlier_cells notebook 9)"
  by code_simp

subsection \<open>C5: control flow\<close>

lemma cells_in_sequence:
  "run_notebook stamen =
     (case kernel_after stamen n of Inl err \<Rightarrow> Inl err
      | Inr st \<Rightarrow> run_cells (library stamen) st (drop n notebook))"
proof -
  have "run_notebook stamen =
      run_cells (library stamen) fresh_kernel (take n notebook @ drop n notebook)"
    by (simp add: run_notebook_def)
  then show ?thesis
    unfolding run_cells_append kernel_after_def .
qed

lemma layout_items:
  "lookup_after stamen 6 (Call (Attribute (Name ''tiles'') ''items'') [] []) =
     Inr (VList (map (\<lambda>(k, v). VTuple [k, v]) (tiles_dict stamen)), [])"
  by code_simp

lemma layout_comprehension:
  "map (lookup_after stamen 6) (cell_comprehensions (notebook ! 6)) =
     [Inr (VDict (map (\<lambda>(k, v). (k, VObj (VLib ''geoviews.WMTS'') [v]
                  [(''extents'', VTuple [VInt 0, VInt (- 90), VInt 360, VInt 90]),
                   (''crs'', VObj (VLib ''cartopy.crs.PlateCarree'') [] [])]))
              (tiles_dict stamen)), [])]"
  by code_simp

lemma control_flow_census:
  "map cell_constructs notebook = replicate 6 [] @ [[Comprehension]] @ replicate 14 []"
  by code_simp

text \<open>
  C5, as amended. No code cell has a conditional or a loop statement: the one construct
  that is not straight-line is the dictionary comprehension of the layout cell (cell 6).
  Where that cell starts, \<open>tiles.items()\<close> is the list of the four entries of the tiles
  dictionary, and the comprehension evaluates its body once for every item: it yields
  the dictionary that has, for every entry \<open>(k, v)\<close> in turn, the key \<open>k\<close> with the value
  of \<open>gv.WMTS(v, extents=..., crs=...)\<close>. The cells are evaluated in sequence: the run is
  the run of the first \<open>n\<close> cells followed, in the kernel they leave, by the run of the
  others, for every \<open>n\<close>; and it succeeds.
\<close>

theorem notebook_control_flow:
  "map cell_constructs notebook = replicate 6 [] @ [[Comprehension]] @ replicate 14 [] \<and>
   lookup_after stamen 6 (Call (Attribute (Name ''tiles'') ''items'') [] []) =
     Inr (VList (map (\<lambda>(k, v). VTuple [k, v]) (tiles_dict stamen)), []) \<and>
   map (lookup_after stamen 6) (cell_comprehensions (notebook ! 6)) =
     [Inr (VDict (map (\<lambda>(k, v). (k, VObj (VLib ''geoviews.WMTS'') [v]
                  [(''extents'', VTuple [VInt 0, VInt (- 90), VInt 360, VInt 90]),
                   (''crs'', VObj (VLib ''cartopy.crs.PlateCarree'') [] [])]))
              (tiles_dict stamen)), [])] \<and>
   run_notebook stamen =
     (case kernel_after stamen n of Inl err \<Rightarrow> Inl err
      | Inr st \<Rightarrow> run_cells (library stamen) st (drop n notebook)) \<and>
   (\<exists>st. run_notebook stamen = Inr st)"
proof -
  have runs: "\<exists>st. run_notebook stamen = Inr st"
    using notebook_runs [of stamen] by blast
  from control_flow_census layout_items [of stamen] layout_comprehension [of stamen]
    cells_in_sequence [of stamen n] runs
  show ?thesis
    by (intro conjI)
qed

text \<open>
  C5 as stated has no construct at all that is not straight-line; the layout cell has
  the comprehension.
\<close>

theorem layout_cell_iterates_counterexample:
  "notebook ! 6 = cell_layout \<and> cell_constructs (notebook ! 6) \<noteq> []"
  by code_simp

subsection \<open>C7: the choropleth join\<close>

lemma find_by_key:
  "distinct (map f xs) \<Longrightarrow> x \<in> set xs \<Longrightarrow> find (\<lambda>y. f y = f x) xs = Some x"
proof (induction xs)
  case Nil
  then show ?case by simp
next
  case (Cons a xs)
  show ?case
  proof (cases "a = x")
    case True
    then show ?thesis by simp
  next
    case False
    with Cons.prems have mem: "x \<in> set xs" by simp
    with Cons.prems have "f a \<noteq> f x" by force
    with Cons.IH Cons.prems mem show ?thesis by simp
  qed
qed

lemma choropleth_call:
  "choropleth records dataset =
     Some (from_records records dataset ''code'' ''leaveVoteshare'' ''name'')"
  by (simp add: choropleth_def cell_choropleth_def)

lemma joined_row_key:
  assumes "key_of col dataset" and "row \<in> set dataset"
    and "map_of row col = map_of (attributes r) col"
  shows "joined_row dataset col r = Some row"
proof -
  from assms(1,2) obtain key where key: "map_of row col = Some key"
    by (auto simp: key_of_def list_all_iff)
  from assms(1) have "distinct (map (\<lambda>row. map_of row col) dataset)"
    by (simp add: key_of_def)
  from find_by_key [OF this assms(2)] key
  have "find (\<lambda>y. map_of y col = Some key) dataset = Some row"
    by simp
  with key assms(3) show ?thesis
    by (simp add: joined_row_def)
qed

text \<open>
  C7. The choropleth cell passes all records of the shapefile and the referendum dataset
  to \<open>from_records\<close> with \<open>on='code'\<close> and \<open>value='leaveVoteshare'\<close>. When \<open>code\<close> is
  a key of the dataset, every record of the shapefile gives one shape, with the record's
  geometry, and the shape of a record carries the vote share of the row that has the
  record's \<open>code\<close>.
\<close>

theorem choropleth_joins_on_code:
  assumes "key_of ''code'' dataset"
  shows "choropleth records dataset \<noteq> None \<and>
         length (the_choropleth records dataset) = length records \<and>
         (\<forall>i<length records.
            boundary (the_choropleth records dataset ! i) = geometry (records ! i) \<and>
            (\<forall>row\<in>set dataset.
               map_of row ''code'' = map_of (attributes (records ! i)) ''code'' \<longrightarrow>
               level (the_choropleth records dataset ! i) = map_of row ''leaveVoteshare''))"
proof -
  have shapes: "the_choropleth records dataset =
      from_records records dataset ''code'' ''leaveVoteshare'' ''name''"
    by (simp add: the_choropleth_def choropleth_call)
  have "level (from_records records dataset ''code'' ''leaveVoteshare'' ''name'' ! i) =
          map_of row ''leaveVoteshare''"
    if "i < length records" and "row \<in> set dataset"
      and "map_of row ''code'' = map_of (attributes (records ! i)) ''code''" for i row
    using that joined_row_key [OF assms that(2,3)] by (simp add: from_records_def)
  then show ?thesis
    unfolding shapes by (simp add: choropleth_call from_records_def)
qed

text \<open>
  Two records and a dataset of two rows, in the other order.
\<close>

theorem choropleth_joins_on_code_witness:
  "key_of ''code'' [[(''code'', ''E06000001''), (''leaveVoteshare'', ''69.6'')],
                    [(''code'', ''E06000002''), (''leaveVoteshare'', ''65.5'')]] \<and>
   map level (the_choropleth
      [\<lparr>attributes = [(''code'', ''E06000002''), (''name'', ''Middlesbrough'')], geometry = 0\<rparr>,
       \<lparr>attributes = [(''code'', ''E06000001''), (''name'', ''Hartlepool'')], geometry = 1\<rparr>]
      [[(''code'', ''E06000001''), (''leaveVoteshare'', ''69.6'')],
       [(''code'', ''E06000002''), (''leaveVoteshare'', ''65.5'')]]) =
     [Some ''65.5'', Some ''69.6'']"
proof -
  let ?ds = "[[(''code'', ''E06000001''), (''leaveVoteshare'', ''69.6'')],
              [(''code'', ''E06000002''), (''leaveVoteshare'', ''65.5'')]]"
  let ?rs = "[\<lparr>attributes = [(''code'', ''E06000002''), (''name'', ''Middlesbrough'')], geometry = 0\<rparr>,
       \<lparr>attributes = [(''code'', ''E06000001''), (''name'', ''Hartlepool'')], geometry = (1::nat)\<rparr>]"
  have h: "key_of ''code'' ?ds"
    by (simp add: key_of_def)
  have len: "length (the_choropleth ?rs ?ds) = 2"
    and l0: "level (the_choropleth ?rs ?ds ! 0) = Some ''65.5''"
    and l1: "level (the_choropleth ?rs ?ds ! 1) = Some ''69.6''"
    using choropleth_joins_on_code [OF h, of ?rs] by (simp_all add: All_less_Suc numeral_2_eq_2)
  have "map level (the_choropleth ?rs ?ds) = [Some ''65.5'', Some ''69.6'']"
    using len l0 l1 by (auto simp: list_eq_iff_nth_eq less_Suc_eq numeral_2_eq_2)
  with h show ?thesis
    by simp
qed

subsection \<open>C9: the lookup in the tiles dictionary\<close>

text \<open>
  C9. Exactly one statement of the notebook binds \<open>tiles\<close>, in cell 4. Before it
  \<open>tiles\<close> is unbound; after it and after every later cell \<open>tiles\<close> is the dictionary
  of the tiles cell, with the keys \<open>OpenMap\<close>, \<open>ESRI\<close>, \<open>Wikipedia\<close> and
  \<open>Stamen Toner\<close>. So \<open>tiles['Wikipedia']\<close>, evaluated where the points cell (cell 11)
  starts, yields the Wikipedia tile source and raises no \<open>KeyError\<close>, and the run
  succeeds.
\<close>

theorem tiles_lookup_succeeds:
  "length (binders ''tiles'' notebook) = 1 \<and>
   tiles_after stamen 4 = None \<and>
   (\<forall>n. 5 \<le> n \<longrightarrow> n \<le> length notebook \<longrightarrow>
      tiles_after stamen n = Some (VDict (tiles_dict stamen))) \<and>
   map fst (tiles_dict stamen) =
     [VStr ''OpenMap'', VStr ''ESRI'', VStr ''Wikipedia'', VStr ''Stamen Toner''] \<and>
   notebook ! 11 = cell_points \<and>
   lookup_after stamen 11 (Subscript (Name ''tiles'') (Str ''Wikipedia'')) =
     Inr (VObj (VLib ''bokeh.models.WMTSTileSource'') []
            [(''url'', VStr ''https://maps.wikimedia.org/osm-intl/{Z}/{X}/{Y}@2x.png'')], []) \<and>
   (\<exists>st. run_notebook stamen = Inr st)"
proof -
  have once: "length (binders ''tiles'' notebook) = 1"
    by code_simp
  have before: "tiles_after stamen 4 = None"
    by code_simp
  have cell: "notebook ! 11 = cell_points"
    by (simp add: notebook_def)
  obtain st where st: "kernel_after stamen 11 = Inr st"
    by (rule prefix_runs)
  have "tiles_after stamen 11 = Some (VDict (tiles_dict stamen))"
    by (rule tiles_after_later) simp
  with st have "map_of (ns st) ''tiles'' = Some (VDict (tiles_dict stamen))"
    by (simp add: tiles_after_def)
  then have lookup: "lookup_after stamen 11 (Subscript (Name ''tiles'') (Str ''Wikipedia'')) =
     Inr (VObj (VLib ''bokeh.models.WMTSTileSource'') []
            [(''url'', VStr ''https://maps.wikimedia.org/osm-intl/{Z}/{X}/{Y}@2x.png'')], [])"
    using st by (simp add: lookup_after_def tiles_dict_def)
  have runs: "\<exists>st. run_notebook stamen = Inr st"
    using notebook_runs [of stamen] by blast
  show ?thesis
    using once before cell lookup runs by (simp add: tiles_after_later tiles_dict_def)
qed

text \<open>
  The kernel after the first eleven cells, where the points cell starts.
\<close>

theorem tiles_lookup_succeeds_witness:
  "(5::nat) \<le> 11 \<and> 11 \<le> length notebook \<and>
   tiles_after (VLib ''bokeh.tile_providers.STAMEN_TONER'') 11 =
     Some (VDict (tiles_dict (VLib ''bokeh.tile_providers.STAMEN_TONER'')))"
proof -
  have n: "11 \<le> length notebook"
    by (simp add: notebook_def)
  from tiles_lookup_succeeds [of "VLib ''bokeh.tile_providers.STAMEN_TONER''"] n show ?thesis
    by simp
qed

subsection \<open>C10: the placeholders of the URL templates\<close>

text \<open>
  C10. The notebook builds three URL templates, those of the entries \<open>OpenMap\<close>,
  \<open>ESRI\<close> and \<open>Wikipedia\<close>. Each has each of \<open>{Z}\<close>, \<open>{X}\<close> and \<open>{Y}\<close>
  exactly once; \<open>OpenMap\<close> and \<open>Wikipedia\<close> have them as \<open>{Z}/{X}/{Y}\<close>, \<open>ESRI\<close>
  as \<open>{Z}/{Y}/{X}\<close>.
\<close>

theorem url_template_placeholders:
  "constructed_urls notebook =
     [''http://c.tile.openstreetmap.org/{Z}/{X}/{Y}.png'',
      ''https://server.arcgisonline.com/ArcGIS/rest/services/World_Imagery/MapServer/tile/{Z}/{Y}/{X}.jpg'',
      ''https://maps.wikimedia.org/osm-intl/{Z}/{X}/{Y}@2x.png''] \<and>
   map (tile_url_of stamen) [''OpenMap'', ''ESRI'', ''Wikipedia''] =
     map Some (constructed_urls notebook) \<and>
   map (\<lambda>u. map (\<lambda>p. occurrences p u) [''{Z}'', ''{X}'', ''{Y}'']) (constructed_urls notebook) =
     [[1, 1, 1], [1, 1, 1], [1, 1, 1]] \<and>
   map placeholders (constructed_urls notebook) =
     [[''{Z}'', ''{X}'', ''{Y}''], [''{Z}'', ''{Y}'', ''{X}''], [''{Z}'', ''{X}'', ''{Y}'']] \<and>
   map (contains ''{Z}/{X}/{Y}'') (constructed_urls notebook) = [True, False, True] \<and>
   map (contains ''{Z}/{Y}/{X}'') (constructed_urls notebook) = [False, True, False]"
  by code_simp

end
